theory Spec2Isabelle
  imports Complex_Main
begin

section \<open>Values and exceptions\<close>

text \<open>
  Both modules work on what \<^verbatim>\<open>response.json()\<close> returns: Python values built from
  \<^verbatim>\<open>None\<close>, booleans, numbers, strings, lists and dictionaries. A dictionary is an
  association list in insertion order (its keys are distinct in Python; a lookup takes the
  first binding). Numbers are only carried around and tested for zero, never computed
  with, so a rational stands for them.
\<close>

datatype json =
    JNull
  | JBool bool
  | JNum rat
  | JStr string
  | JArr "json list"
  | JObj "(string \<times> json) list"

text \<open>
  The exceptions that the two modules raise or let through. \<open>APIError\<close> is the class of
  \<^verbatim>\<open>get_json.py\<close> and carries its message; \<open>ValueError\<close> carries the message of
  \<^verbatim>\<open>export_data\<close> up to the offending format (the rest of that message prints a Python
  set, whose order is unspecified). \<open>JSONDecodeError\<close> is the standard library's class, a
  \<^verbatim>\<open>ValueError\<close> that is not a \<^verbatim>\<open>RequestException\<close>. \<open>OSError\<close> stands for whatever
  the file system calls raise.
\<close>

datatype exn =
    AttributeError
  | TypeError
  | ValueError string
  | JSONDecodeError string
  | APIError string
  | OSError string

type_synonym 'a result = "exn + 'a"

definition and_then :: "'a result \<Rightarrow> ('a \<Rightarrow> 'b result) \<Rightarrow> 'b result" where
  "and_then r f = (case r of Inl e \<Rightarrow> Inl e | Inr v \<Rightarrow> f v)"

text \<open>
  \<^verbatim>\<open>d.get(k, default)\<close>: only a dictionary has the method; on every other value the
  attribute lookup raises \<^verbatim>\<open>AttributeError\<close>.
\<close>

fun py_get :: "json \<Rightarrow> string \<Rightarrow> json \<Rightarrow> json result" where
  "py_get (JObj kvs) k dflt = Inr (case map_of kvs k of None \<Rightarrow> dflt | Some v \<Rightarrow> v)"
| "py_get JNull k dflt = Inl AttributeError"
| "py_get (JBool b) k dflt = Inl AttributeError"
| "py_get (JNum n) k dflt = Inl AttributeError"
| "py_get (JStr s) k dflt = Inl AttributeError"
| "py_get (JArr xs) k dflt = Inl AttributeError"

text \<open>
  What a \<^verbatim>\<open>for\<close> clause iterates over: the elements of a list, the keys of a
  dictionary, the characters of a string; \<^verbatim>\<open>None\<close>, booleans and numbers are not
  iterable and raise \<^verbatim>\<open>TypeError\<close>.
\<close>

fun py_iter :: "json \<Rightarrow> json list result" where
  "py_iter (JArr xs) = Inr xs"
| "py_iter (JObj kvs) = Inr (map (\<lambda>kv. JStr (fst kv)) kvs)"
| "py_iter (JStr s) = Inr (map (\<lambda>c. JStr [c]) s)"
| "py_iter JNull = Inl TypeError"
| "py_iter (JBool b) = Inl TypeError"
| "py_iter (JNum n) = Inl TypeError"

text \<open>Truth value of a Python value, as \<^verbatim>\<open>if not x\<close> tests it.\<close>

fun py_truthy :: "json \<Rightarrow> bool" where
  "py_truthy JNull = False"
| "py_truthy (JBool b) = b"
| "py_truthy (JNum n) = (n \<noteq> 0)"
| "py_truthy (JStr s) = (s \<noteq> [])"
| "py_truthy (JArr xs) = (xs \<noteq> [])"
| "py_truthy (JObj kvs) = (kvs \<noteq> [])"

fun is_list :: "json \<Rightarrow> bool" where
  "is_list (JArr xs) = True"
| "is_list JNull = False"
| "is_list (JBool b) = False"
| "is_list (JNum n) = False"
| "is_list (JStr s) = False"
| "is_list (JObj kvs) = False"

text \<open>
  One \<^verbatim>\<open>for\<close> clause of a list comprehension: the body runs on each element in
  order, the rows it yields are appended, and the first exception ends the whole
  comprehension.
\<close>

fun for_each :: "('a \<Rightarrow> 'b list result) \<Rightarrow> 'a list \<Rightarrow> 'b list result" where
  "for_each body [] = Inr []"
| "for_each body (x # xs) =
     (case body x of
        Inl e \<Rightarrow> Inl e
      | Inr ys \<Rightarrow> (case for_each body xs of Inl e \<Rightarrow> Inl e | Inr zs \<Rightarrow> Inr (ys @ zs)))"

section \<open>The flattener of get\_json.py\<close>

text \<open>
  \<^verbatim>\<open>get_nested(data, *args)\<close>: the loop over the keys tests \<^verbatim>\<open>data is None\<close> before
  each \<^verbatim>\<open>data.get(arg)\<close>.
\<close>

fun get_nested :: "json \<Rightarrow> string list \<Rightarrow> json result" where
  "get_nested data [] = Inr data"
| "get_nested data (arg # args) =
     (if data = JNull then Inr JNull
      else and_then (py_get data arg JNull) (\<lambda>v. get_nested v args))"

text \<open>
  A row is the dictionary that \<^verbatim>\<open>create_row\<close> returns, its keys in the order of the
  literal; the values are computed in that order. The date comes from the clock and is
  passed in, already formatted.
\<close>

type_synonym row = "(string \<times> json) list"

definition get_json_create_row :: "string \<Rightarrow> json \<Rightarrow> json \<Rightarrow> json \<Rightarrow> row result" where
  "get_json_create_row today data aisle product =
     and_then (py_get aisle ''aisle_name'' JNull) (\<lambda>aisle_name.
     and_then (py_get product ''name'' JNull) (\<lambda>product_name.
     and_then (get_nested product [''brand'', ''name'']) (\<lambda>brand.
     and_then (get_nested product [''pricing'', ''price'', ''amount'']) (\<lambda>price.
     and_then (py_get product ''package'' JNull) (\<lambda>package.
     and_then (get_nested data [''store'', ''name'']) (\<lambda>store_name.
     and_then (get_nested data [''store'', ''closest_branch'', ''city'']) (\<lambda>store_city.
     and_then (get_nested data [''search_result'', ''search_term'']) (\<lambda>search_term.
     Inr [(''date'', JStr today),
          (''aisle_name'', aisle_name),
          (''product_name'', product_name),
          (''brand'', brand),
          (''price'', price),
          (''package'', package),
          (''store_name'', store_name),
          (''store_city'', store_city),
          (''search_term'', search_term)]))))))))"

definition create_data :: "string \<Rightarrow> json \<Rightarrow> row list result" where
  "create_data today results =
     and_then (py_iter results) (for_each (\<lambda>data.
       and_then (get_nested data [''search_result'', ''aisles'']) (\<lambda>aisles.
       and_then (py_iter aisles) (for_each (\<lambda>aisle.
         and_then (py_get aisle ''products'' (JArr [])) (\<lambda>products.
         and_then (py_iter products) (for_each (\<lambda>product.
           and_then (get_json_create_row today data aisle product) (\<lambda>r. Inr [r])))))))))"

section \<open>The flattener of get\_prices.py\<close>

definition get_prices_create_row :: "string \<Rightarrow> json \<Rightarrow> json \<Rightarrow> json \<Rightarrow> row result" where
  "get_prices_create_row today data aisle product =
     and_then (and_then (and_then (py_get product ''pricing'' (JObj []))
                 (\<lambda>v. py_get v ''price'' (JObj [])))
                 (\<lambda>v. py_get v ''amount'' (JStr ''''))) (\<lambda>product_price.
     and_then (py_get product ''package'' (JStr '''')) (\<lambda>package.
     and_then (and_then (py_get data ''search_result'' (JObj []))
                 (\<lambda>v. py_get v ''search_term'' (JStr ''''))) (\<lambda>search_term.
     and_then (and_then (py_get product ''brand'' (JArr []))
                 (\<lambda>v. py_get v ''name'' (JStr ''''))) (\<lambda>brand.
     and_then (and_then (py_get product ''brand'' (JArr []))
                 (\<lambda>v. py_get v ''id'' (JStr ''''))) (\<lambda>brand_id.
     and_then (py_get aisle ''aisle_name'' (JStr '''')) (\<lambda>aisle_name.
     and_then (py_get product ''name'' (JStr '''')) (\<lambda>product_name.
     and_then (py_get product ''id'' (JStr '''')) (\<lambda>product_id.
     and_then (and_then (py_get data ''store'' (JObj []))
                 (\<lambda>v. py_get v ''name'' (JStr ''''))) (\<lambda>store_name.
     and_then (and_then (py_get data ''store'' (JObj []))
                 (\<lambda>v. py_get v ''id'' (JStr ''''))) (\<lambda>store_id.
     and_then (and_then (and_then (py_get data ''store'' (JObj []))
                 (\<lambda>v. py_get v ''closest_branch'' (JObj [])))
                 (\<lambda>v. py_get v ''city'' (JStr ''''))) (\<lambda>store_city.
     Inr [(''Date'', JStr today),
          (''Product Price'', product_price),
          (''Package'', package),
          (''Search Term'', search_term),
          (''Brand'', brand),
          (''Brand ID'', brand_id),
          (''Aisle Name'', aisle_name),
          (''Product Name'', product_name),
          (''Product ID'', product_id),
          (''Store Name'', store_name),
          (''Store ID'', store_id),
          (''Store City'', store_city)])))))))))))"

text \<open>
  \<^verbatim>\<open>create_dataframe\<close> first builds the list \<^verbatim>\<open>rows\<close> with a comprehension.
\<close>

definition create_dataframe_rows :: "string \<Rightarrow> json \<Rightarrow> row list result" where
  "create_dataframe_rows today results =
     and_then (py_iter results) (for_each (\<lambda>data.
       and_then (and_then (py_get data ''search_result'' (JObj []))
                   (\<lambda>v. py_get v ''aisles'' (JArr []))) (\<lambda>aisles.
       and_then (py_iter aisles) (for_each (\<lambda>aisle.
         and_then (py_get aisle ''products'' (JArr [])) (\<lambda>products.
         and_then (py_iter products) (for_each (\<lambda>product.
           and_then (get_prices_create_row today data aisle product) (\<lambda>r. Inr [r])))))))))"

text \<open>
  It returns \<^verbatim>\<open>pd.DataFrame(rows)\<close>. The constructor is the library's: it makes one
  record per row, in order, and coerces the cells column by column (a column of integers
  with a missing value becomes floating point, \<^verbatim>\<open>None\<close> becomes \<^verbatim>\<open>NaN\<close>), so a frame
  is not the list of rows. The type of frames and the constructor are parameters.
\<close>

definition create_dataframe :: "(row list \<Rightarrow> 'df) \<Rightarrow> string \<Rightarrow> json \<Rightarrow> 'df result" where
  "create_dataframe pd_DataFrame today results =
     and_then (create_dataframe_rows today results) (\<lambda>rows. Inr (pd_DataFrame rows))"

section \<open>The outside world\<close>

text \<open>
  The one HTTP request of a fetch is answered by the environment. The answer says which
  of the three library calls raises, if any: \<^verbatim>\<open>requests.get\<close> (a transport error, some
  \<^verbatim>\<open>RequestException\<close> other than \<^verbatim>\<open>HTTPError\<close>), \<^verbatim>\<open>raise_for_status\<close> (an
  \<^verbatim>\<open>HTTPError\<close>, for a non-success status) or \<^verbatim>\<open>response.json()\<close> (the body is not
  JSON). The exception of \<^verbatim>\<open>response.json()\<close> is always a \<^verbatim>\<open>ValueError\<close>; whether it
  is also a \<^verbatim>\<open>RequestException\<close> depends on the version of the library, which the flag
  records. Each carries the text of the exception. The query parameters only shape the
  request and are left out.
\<close>

datatype http_outcome =
    Request_failed string
  | Status_error string
  | Body_invalid bool string
  | Body_json json

text \<open>
  What a run can change: the file system (abstract, reached only through the two
  operations below), the log (level and message) and the standard output.
\<close>

record 'fs world =
  files :: 'fs
  logged :: "(string \<times> string) list"
  stdout :: "string list"

text \<open>
  What is written to a file: a frame in one of the three formats of \<^verbatim>\<open>export_data\<close>,
  or the rows that \<^verbatim>\<open>save_as_json\<close> dumps.
\<close>

datatype 'df payload =
    Csv 'df
  | Parquet 'df
  | Json_lines 'df
  | Json_dump "row list"

text \<open>
  The file system calls of the two modules: \<^verbatim>\<open>os.makedirs(path, exist_ok=True)\<close> and
  the writers (\<^verbatim>\<open>to_csv\<close>, \<^verbatim>\<open>to_parquet\<close>, \<^verbatim>\<open>to_json\<close>, and \<^verbatim>\<open>open\<close> followed by
  \<^verbatim>\<open>json.dump\<close>). Each returns the new file system and, when it raises, the text of
  the exception.
\<close>

record ('fs, 'df) sys =
  makedirs :: "string \<Rightarrow> 'fs \<Rightarrow> string option \<times> 'fs"
  write_file :: "string \<Rightarrow> 'df payload \<Rightarrow> 'fs \<Rightarrow> string option \<times> 'fs"

definition log_msg :: "string \<Rightarrow> string \<Rightarrow> 'fs world \<Rightarrow> 'fs world" where
  "log_msg level msg w = w\<lparr>logged := logged w @ [(level, msg)]\<rparr>"

definition py_print :: "string \<Rightarrow> 'fs world \<Rightarrow> 'fs world" where
  "py_print msg w = w\<lparr>stdout := stdout w @ [msg]\<rparr>"

text \<open>\<^verbatim>\<open>os.path.join\<close> of two components on a POSIX system.\<close>

definition os_path_join :: "string \<Rightarrow> string \<Rightarrow> string" where
  "os_path_join a b =
     (if b \<noteq> [] \<and> hd b = CHR ''/'' then b
      else if a = [] \<or> last a = CHR ''/'' then a @ b
      else a @ ''/'' @ b)"

section \<open>Fetching\<close>

text \<open>
  \<^verbatim>\<open>get_product_data\<close> of get\_prices.py: the request, the status check and the parsing
  are inside one \<^verbatim>\<open>try\<close>; the two handlers log and fall through to
  \<^verbatim>\<open>return None\<close>. An exception that is no \<^verbatim>\<open>RequestException\<close> is not handled.
\<close>

fun get_prices_get_product_data :: "http_outcome \<Rightarrow> 'fs world \<Rightarrow> json result \<times> 'fs world" where
  "get_prices_get_product_data (Body_json j) w = (Inr j, w)"
| "get_prices_get_product_data (Status_error err) w =
     (Inr JNull, log_msg ''ERROR'' (''HTTP error occurred: '' @ err) w)"
| "get_prices_get_product_data (Request_failed err) w =
     (Inr JNull, log_msg ''ERROR'' (''Other Requests error occurred: '' @ err) w)"
| "get_prices_get_product_data (Body_invalid is_request_exception err) w =
     (if is_request_exception
      then (Inr JNull, log_msg ''ERROR'' (''Other Requests error occurred: '' @ err) w)
      else (Inl (JSONDecodeError err), w))"

text \<open>
  \<^verbatim>\<open>get_product_data\<close> of get\_json.py: the first \<^verbatim>\<open>try\<close> covers the request and the
  status check, the second the parsing. (The two seconds of \<^verbatim>\<open>sleep\<close> before the
  request are not modelled.)
\<close>

fun get_json_get_product_data :: "http_outcome \<Rightarrow> 'fs world \<Rightarrow> json result \<times> 'fs world" where
  "get_json_get_product_data (Body_json j) w = (Inr j, w)"
| "get_json_get_product_data (Status_error err) w =
     (Inl (APIError ''An error occurred while fetching product data.''),
      log_msg ''ERROR'' (''Error occurred while fetching product data: '' @ err) w)"
| "get_json_get_product_data (Request_failed err) w =
     (Inl (APIError ''An error occurred while fetching product data.''),
      log_msg ''ERROR'' (''Error occurred while fetching product data: '' @ err) w)"
| "get_json_get_product_data (Body_invalid is_request_exception err) w =
     (Inl (APIError ''Received an invalid JSON response.''), w)"

section \<open>Exporting\<close>

definition supported_formats :: "string set" where
  "supported_formats = {''csv'', ''parquet'', ''json''}"

text \<open>
  \<^verbatim>\<open>export_data\<close>: the format is checked first; the directory is created outside the
  \<^verbatim>\<open>try\<close>; a failure of the writer is logged with the path and raised again. The time
  stamp comes from the clock and is passed in, already formatted.
\<close>

definition export_data ::
  "('fs, 'df) sys \<Rightarrow> string \<Rightarrow> 'df \<Rightarrow> string \<Rightarrow> string \<Rightarrow> string \<Rightarrow> 'fs world
     \<Rightarrow> unit result \<times> 'fs world" where
  "export_data os timestamp df dir_path base_name format w =
     (if format \<notin> supported_formats
      then (Inl (ValueError (''Unsupported file format: '' @ format)), w)
      else
        (case makedirs os dir_path (files w) of
           (Some err, fs1) \<Rightarrow> (Inl (OSError err), w\<lparr>files := fs1\<rparr>)
         | (None, fs1) \<Rightarrow>
             (let filename = base_name @ ''_'' @ timestamp @ ''.'' @ format;
                  file_path = os_path_join dir_path filename;
                  written =
                    (if format = ''csv'' then write_file os file_path (Csv df) fs1
                     else if format = ''parquet'' then write_file os file_path (Parquet df) fs1
                     else if format = ''json'' then write_file os file_path (Json_lines df) fs1
                     else (None, fs1))
              in (case written of
                    (Some err, fs2) \<Rightarrow>
                      (Inl (OSError err),
                       log_msg ''ERROR''
                         (''An error occurred while exporting data to '' @ file_path @ '': '' @ err)
                         (w\<lparr>files := fs2\<rparr>))
                  | (None, fs2) \<Rightarrow>
                      (Inr (),
                       log_msg ''INFO'' (''Data successfully exported to '' @ file_path)
                         (w\<lparr>files := fs2\<rparr>))))))"

section \<open>The two pipelines\<close>

text \<open>
  \<^verbatim>\<open>fetch_and_export_product_data\<close> of get\_prices.py. It returns nothing; the result
  says whether an exception left it. The constructor of frames is passed on to
  \<^verbatim>\<open>create_dataframe\<close>.
\<close>

definition fetch_and_export_product_data ::
  "('fs, 'df) sys \<Rightarrow> (row list \<Rightarrow> 'df) \<Rightarrow> http_outcome \<Rightarrow> string \<Rightarrow> string \<Rightarrow> string \<Rightarrow> string
     \<Rightarrow> string \<Rightarrow> 'fs world \<Rightarrow> unit result \<times> 'fs world" where
  "fetch_and_export_product_data os pd_DataFrame answer today timestamp dir_path base_name format
     w =
     (case get_prices_get_product_data answer w of
        (Inl e, w1) \<Rightarrow> (Inl e, w1)
      | (Inr raw_json_data, w1) \<Rightarrow>
          if \<not> py_truthy raw_json_data
          then (Inr (), log_msg ''WARNING'' ''No data returned.'' w1)
          else
            (case py_get raw_json_data ''results'' (JArr []) of
               Inl e \<Rightarrow> (Inl e, w1)
             | Inr product_results \<Rightarrow>
                 if \<not> is_list product_results
                 then (Inr (),
                       log_msg ''WARNING''
                         (CHR 0x27 # ''results'' @ CHR 0x27 #
                          '' is not present or not a list in the returned data.'') w1)
                 else
                   (case create_dataframe pd_DataFrame today product_results of
                      Inl e \<Rightarrow> (Inl e, w1)
                    | Inr df \<Rightarrow> export_data os timestamp df dir_path base_name format w1)))"

text \<open>
  \<^verbatim>\<open>get_and_create\<close> of get\_json.py. It returns the rows.
\<close>

definition save_as_json ::
  "('fs, 'df) sys \<Rightarrow> row list \<Rightarrow> string \<Rightarrow> 'fs world \<Rightarrow> unit result \<times> 'fs world" where
  "save_as_json os data save_path w =
     (case write_file os save_path (Json_dump data) (files w) of
        (Some err, fs1) \<Rightarrow> (Inl (OSError err), w\<lparr>files := fs1\<rparr>)
      | (None, fs1) \<Rightarrow> (Inr (), w\<lparr>files := fs1\<rparr>))"

definition get_and_create ::
  "('fs, 'df) sys \<Rightarrow> http_outcome \<Rightarrow> string \<Rightarrow> string \<Rightarrow> string \<Rightarrow> string \<Rightarrow> string \<Rightarrow> 'fs world
     \<Rightarrow> row list result \<times> 'fs world" where
  "get_and_create os answer today timestamp term code base_dir w =
     (case get_json_get_product_data answer (py_print ''Fetching product data...'' w) of
        (Inl e, w1) \<Rightarrow> (Inl e, w1)
      | (Inr raw_json_data, w1) \<Rightarrow>
          (case py_get raw_json_data ''results'' (JArr []) of
             Inl e \<Rightarrow> (Inl e, w1)
           | Inr json_data \<Rightarrow>
               (case create_data today json_data of
                  Inl e \<Rightarrow> (Inl e, w1)
                | Inr data \<Rightarrow>
                    (let data_dir = os_path_join base_dir ''data'' in
                     case makedirs os data_dir (files w1) of
                       (Some err, fs1) \<Rightarrow> (Inl (OSError err), w1\<lparr>files := fs1\<rparr>)
                     | (None, fs1) \<Rightarrow>
                         (let filename = term @ ''_'' @ code @ ''_'' @ timestamp;
                              save_path = os_path_join data_dir (filename @ ''.json'');
                              w2 = py_print (''Saving data as JSON: '' @ save_path) (w1\<lparr>files := fs1\<rparr>)
                          in case save_as_json os data save_path w2 of
                               (Inl e, w3) \<Rightarrow> (Inl e, w3)
                             | (Inr u, w3) \<Rightarrow>
                                 (Inr data, py_print ''Data saved successfully.'' w3))))))"

section \<open>A file system in memory\<close>

text \<open>
  A small file system to run the pipelines on: the directories created and the files
  written, latest first. Its two calls never fail. A frame is stood for by its number of
  rows.
\<close>

record mem_fs =
  dirs :: "string list"
  written :: "(string \<times> nat payload) list"

definition mem_sys :: "(mem_fs, nat) sys" where
  "mem_sys =
     \<lparr>makedirs = (\<lambda>path fs. (None, fs\<lparr>dirs := path # dirs fs\<rparr>)),
      write_file = (\<lambda>path content fs. (None, fs\<lparr>written := (path, content) # written fs\<rparr>))\<rparr>"

definition empty_world :: "mem_fs world" where
  "empty_world = \<lparr>files = \<lparr>dirs = [], written = []\<rparr>, logged = [], stdout = []\<rparr>"

section \<open>What the specification counts and follows\<close>

text \<open>
  The aisle list of a store result and the product list of an aisle, as the data model
  describes them: the list under \<^verbatim>\<open>search_result.aisles\<close>, the list under
  \<^verbatim>\<open>products\<close>, and no entries where the list is absent.
\<close>

definition aisles_of :: "json \<Rightarrow> json list" where
  "aisles_of data =
     (case data of
        JObj kvs \<Rightarrow>
          (case map_of kvs ''search_result'' of
             Some (JObj sr) \<Rightarrow> (case map_of sr ''aisles'' of Some (JArr as) \<Rightarrow> as | _ \<Rightarrow> [])
           | _ \<Rightarrow> [])
      | _ \<Rightarrow> [])"

definition products_of :: "json \<Rightarrow> json list" where
  "products_of aisle =
     (case aisle of
        JObj kvs \<Rightarrow> (case map_of kvs ''products'' of Some (JArr ps) \<Rightarrow> ps | _ \<Rightarrow> [])
      | _ \<Rightarrow> [])"

text \<open>The number of product occurrences: the sum over stores, over aisles, of the products.\<close>

definition product_occurrences :: "json list \<Rightarrow> nat" where
  "product_occurrences stores =
     (\<Sum>data\<leftarrow>stores. \<Sum>aisle\<leftarrow>aisles_of data. length (products_of aisle))"

text \<open>
  The nested traversal: a row constructor applied to every product of every aisle of
  every store, in that order.
\<close>

definition flat_map_rows :: "(json \<Rightarrow> json \<Rightarrow> json \<Rightarrow> 'a) \<Rightarrow> json list \<Rightarrow> 'a list" where
  "flat_map_rows mk stores =
     concat (map (\<lambda>data.
       concat (map (\<lambda>aisle. map (mk data aisle) (products_of aisle)) (aisles_of data))) stores)"

text \<open>
  The safe navigation of the specification: the placeholder as soon as a step is missing
  or null, the value at the end of the chain otherwise.
\<close>

fun safe_navigate :: "json \<Rightarrow> string list \<Rightarrow> json" where
  "safe_navigate v [] = v"
| "safe_navigate v (k # ks) =
     (case v of
        JObj kvs \<Rightarrow> (case map_of kvs k of None \<Rightarrow> JNull | Some u \<Rightarrow> safe_navigate u ks)
      | _ \<Rightarrow> JNull)"

text \<open>
  The chains on which \<^verbatim>\<open>get_nested\<close> calls \<^verbatim>\<open>.get\<close> on dictionaries only: every value
  it reaches before the last key is a dictionary or \<^verbatim>\<open>None\<close>.
\<close>

fun dict_chain :: "json \<Rightarrow> string list \<Rightarrow> bool" where
  "dict_chain v [] = True"
| "dict_chain v (k # ks) =
     (case v of
        JNull \<Rightarrow> True
      | JObj kvs \<Rightarrow> dict_chain (case map_of kvs k of None \<Rightarrow> JNull | Some u \<Rightarrow> u) ks
      | _ \<Rightarrow> False)"

section \<open>Inputs on which the flattener of get\_json.py returns\<close>

fun is_dict :: "json \<Rightarrow> bool" where
  "is_dict (JObj kvs) = True"
| "is_dict JNull = False"
| "is_dict (JBool b) = False"
| "is_dict (JNum n) = False"
| "is_dict (JStr s) = False"
| "is_dict (JArr xs) = False"

text \<open>
  The five chains that \<^verbatim>\<open>create_row\<close> of get\_json.py follows with \<^verbatim>\<open>get_nested\<close>
  pass through dictionaries and null only.
\<close>

definition row_chains :: "json \<Rightarrow> json \<Rightarrow> bool" where
  "row_chains data product \<longleftrightarrow>
     dict_chain product [''brand'', ''name''] \<and>
     dict_chain product [''pricing'', ''price'', ''amount''] \<and>
     dict_chain data [''store'', ''name''] \<and>
     dict_chain data [''store'', ''closest_branch'', ''city''] \<and>
     dict_chain data [''search_result'', ''search_term'']"

text \<open>
  An aisle is a dictionary whose products, when present, are a list of such product
  dictionaries; a store result has a list of such aisles under \<^verbatim>\<open>search_result.aisles\<close>.
\<close>

definition aisle_well_formed :: "json \<Rightarrow> json \<Rightarrow> bool" where
  "aisle_well_formed data aisle \<longleftrightarrow>
     (case py_get aisle ''products'' (JArr []) of
        Inr (JArr ps) \<Rightarrow> list_all (\<lambda>p. is_dict p \<and> row_chains data p) ps
      | _ \<Rightarrow> False)"

definition store_well_formed :: "json \<Rightarrow> bool" where
  "store_well_formed data \<longleftrightarrow>
     (case get_nested data [''search_result'', ''aisles''] of
        Inr (JArr as) \<Rightarrow> list_all (aisle_well_formed data) as
      | _ \<Rightarrow> False)"

section \<open>Example inputs\<close>

text \<open>
  The response of the end-to-end scenario: one store with one aisle holding one product.
\<close>

definition scenario_product :: json where
  "scenario_product =
     JObj [(''name'', JStr ''Milk 1L''), (''id'', JNum 9),
           (''brand'', JObj [(''name'', JStr ''B''), (''id'', JNum 2)]),
           (''pricing'', JObj [(''price'', JObj [(''amount'', JNum 5.5)])]),
           (''package'', JStr ''1L'')]"

definition scenario_aisle :: json where
  "scenario_aisle =
     JObj [(''aisle_name'', JStr ''Dairy''), (''products'', JArr [scenario_product])]"

definition scenario_store :: json where
  "scenario_store =
     JObj [(''store'', JObj [(''name'', JStr ''S1''), (''id'', JNum 1),
                            (''closest_branch'', JObj [(''city'', JStr ''X'')])]),
           (''search_result'',
              JObj [(''search_term'', JStr ''milk''), (''aisles'', JArr [scenario_aisle])])]"

definition scenario_response :: json where
  "scenario_response = JObj [(''results'', JArr [scenario_store])]"

text \<open>The row of that product in the schema of get\_json.py and in that of get\_prices.py.\<close>

definition scenario_row :: "string \<Rightarrow> row" where
  "scenario_row today =
     [(''date'', JStr today), (''aisle_name'', JStr ''Dairy''),
      (''product_name'', JStr ''Milk 1L''), (''brand'', JStr ''B''), (''price'', JNum 5.5),
      (''package'', JStr ''1L''), (''store_name'', JStr ''S1''), (''store_city'', JStr ''X''),
      (''search_term'', JStr ''milk'')]"

definition scenario_frame_row :: "string \<Rightarrow> row" where
  "scenario_frame_row today =
     [(''Date'', JStr today), (''Product Price'', JNum 5.5), (''Package'', JStr ''1L''),
      (''Search Term'', JStr ''milk''), (''Brand'', JStr ''B''), (''Brand ID'', JNum 2),
      (''Aisle Name'', JStr ''Dairy''), (''Product Name'', JStr ''Milk 1L''),
      (''Product ID'', JNum 9), (''Store Name'', JStr ''S1''), (''Store ID'', JNum 1),
      (''Store City'', JStr ''X'')]"

text \<open>A store result without an aisle list, and the scenario's product without its brand.\<close>

definition store_without_aisles :: json where
  "store_without_aisles =
     JObj [(''store'', JObj [(''name'', JStr ''S0'')]),
           (''search_result'', JObj [(''search_term'', JStr ''milk'')])]"

definition product_without_brand :: json where
  "product_without_brand =
     JObj [(''name'', JStr ''Milk 1L''), (''id'', JNum 9),
           (''pricing'', JObj [(''price'', JObj [(''amount'', JNum 5.5)])]),
           (''package'', JStr ''1L'')]"

text \<open>The scenario's store with that product added to its aisle.\<close>

definition store_with_brandless_product :: json where
  "store_with_brandless_product =
     JObj [(''store'', JObj [(''name'', JStr ''S1''), (''id'', JNum 1),
                            (''closest_branch'', JObj [(''city'', JStr ''X'')])]),
           (''search_result'',
              JObj [(''search_term'', JStr ''milk''),
                    (''aisles'',
                       JArr [JObj [(''aisle_name'', JStr ''Dairy''),
                                   (''products'',
                                      JArr [scenario_product, product_without_brand])]])])]"

section \<open>Sequencing and loops\<close>

lemma and_then_Inr: "and_then r f = Inr y \<longleftrightarrow> (\<exists>v. r = Inr v \<and> f v = Inr y)"
  by (cases r) (simp_all add: and_then_def)

lemma and_then_simps [simp]:
  "and_then (Inl e) f = Inl e"
  "and_then (Inr v) f = f v"
  by (simp_all add: and_then_def)

text \<open>
  A loop that ends normally has run its body normally on every element, and its rows are
  those of the elements, in order.
\<close>

lemma for_each_rows:
  assumes "for_each body xs = Inr rows"
    and "\<And>x rs. x \<in> set xs \<Longrightarrow> body x = Inr rs \<Longrightarrow> map Inr rs = g x"
  shows "map Inr rows = concat (map g xs)"
  using assms
proof (induction xs arbitrary: rows)
  case Nil
  then show ?case by simp
next
  case (Cons x xs)
  from Cons.prems(1) obtain ys zs
    where ys: "body x = Inr ys" and zs: "for_each body xs = Inr zs" and rows: "rows = ys @ zs"
    by (auto split: sum.splits)
  have "map Inr ys = g x" using Cons.prems(2) ys by simp
  moreover have "map Inr zs = concat (map g xs)"
    using Cons.IH [OF zs] Cons.prems(2) by simp
  ultimately show ?case using rows by simp
qed

lemma for_each_all_raise:
  assumes "for_each body xs = Inr rows"
    and "\<And>x. x \<in> set xs \<Longrightarrow> \<exists>e. body x = Inl e"
  shows "xs = []"
proof (cases xs)
  case Nil
  then show ?thesis .
next
  case (Cons x ys)
  then obtain e where "body x = Inl e" using assms(2) by auto
  then show ?thesis using assms(1) Cons by simp
qed

lemma for_each_returns:
  assumes "\<And>x. x \<in> set xs \<Longrightarrow> \<exists>ys. body x = Inr ys"
  shows "\<exists>rows. for_each body xs = Inr rows"
  using assms
proof (induction xs)
  case Nil
  show ?case by simp
next
  case (Cons x xs)
  then obtain ys zs where "body x = Inr ys" "for_each body xs = Inr zs"
    by (meson list.set_intros)
  then show ?case by simp
qed

text \<open>
  When the body raises on every string, a loop that ends normally has iterated over a
  list, or over nothing at all (an empty dictionary or an empty string).
\<close>

lemma iterated_list:
  assumes it: "py_iter v = Inr xs"
    and loop: "for_each body xs = Inr rows"
    and str: "\<And>s. \<exists>e. body (JStr s) = Inl e"
  shows "xs = (case v of JArr ys \<Rightarrow> ys | _ \<Rightarrow> [])"
proof (cases v)
  case (JObj kvs)
  then have "\<And>x. x \<in> set xs \<Longrightarrow> \<exists>e. body x = Inl e" using it str by auto
  then have "xs = []" using loop for_each_all_raise by blast
  then show ?thesis using JObj by simp
next
  case (JStr s)
  then have "\<And>x. x \<in> set xs \<Longrightarrow> \<exists>e. body x = Inl e" using it str by auto
  then have "xs = []" using loop for_each_all_raise by blast
  then show ?thesis using JStr by simp
qed (use it in auto)

section \<open>The two flatteners as nested traversals\<close>

lemma products_loop:
  assumes run: "and_then (py_get aisle ''products'' (JArr [])) (\<lambda>products.
            and_then (py_iter products) (for_each (\<lambda>product.
              and_then (mk product) (\<lambda>r. Inr [r])))) = Inr rows"
    and str: "\<And>s. \<exists>e. mk (JStr s) = Inl e"
  shows "map Inr rows = map mk (products_of aisle)"
proof -
  let ?body = "\<lambda>product. and_then (mk product) (\<lambda>r. Inr [r])"
  from run obtain products ps
    where got: "py_get aisle ''products'' (JArr []) = Inr products"
      and it: "py_iter products = Inr ps"
      and loop: "for_each ?body ps = Inr rows"
    by (auto simp: and_then_Inr)
  have "\<And>s. \<exists>e. ?body (JStr s) = Inl e"
  proof -
    fix s
    from str obtain e where "mk (JStr s) = Inl e" by blast
    then show "\<exists>e. ?body (JStr s) = Inl e" by simp
  qed
  then have ps: "ps = (case products of JArr ys \<Rightarrow> ys | _ \<Rightarrow> [])"
    using iterated_list [OF it loop] by blast
  have "ps = products_of aisle"
    using got ps by (cases aisle) (auto simp: products_of_def split: option.splits json.splits)
  moreover have "map Inr rows = concat (map (\<lambda>p. [mk p]) ps)"
    by (rule for_each_rows [OF loop]) (auto simp: and_then_Inr)
  ultimately show ?thesis by (simp add: concat_map_singleton)
qed

lemma aisles_loop:
  assumes it: "py_iter aisles = Inr as"
    and loop: "for_each (\<lambda>aisle.
            and_then (py_get aisle ''products'' (JArr [])) (\<lambda>products.
            and_then (py_iter products) (for_each (\<lambda>product.
              and_then (mk aisle product) (\<lambda>r. Inr [r]))))) as = Inr rows"
    and str: "\<And>a s. \<exists>e. mk a (JStr s) = Inl e"
  shows "as = (case aisles of JArr ys \<Rightarrow> ys | _ \<Rightarrow> []) \<and>
         map Inr rows = concat (map (\<lambda>a. map (mk a) (products_of a)) as)"
proof
  show "as = (case aisles of JArr ys \<Rightarrow> ys | _ \<Rightarrow> [])"
    by (rule iterated_list [OF it loop]) simp
  show "map Inr rows = concat (map (\<lambda>a. map (mk a) (products_of a)) as)"
    by (rule for_each_rows [OF loop]) (use str in \<open>auto intro: products_loop\<close>)
qed

lemma get_json_aisles:
  assumes "get_nested data [''search_result'', ''aisles''] = Inr v"
  shows "(case v of JArr ys \<Rightarrow> ys | _ \<Rightarrow> []) = aisles_of data"
  using assms
  by (cases data)
     (auto simp: aisles_of_def and_then_Inr split: option.splits json.splits if_splits)

lemma get_prices_aisles:
  assumes "and_then (py_get data ''search_result'' (JObj []))
             (\<lambda>v. py_get v ''aisles'' (JArr [])) = Inr v"
  shows "(case v of JArr ys \<Rightarrow> ys | _ \<Rightarrow> []) = aisles_of data"
  using assms
  by (cases data)
     (auto simp: aisles_of_def and_then_Inr split: option.splits json.splits if_splits)

lemma get_json_create_row_string: "\<exists>e. get_json_create_row today data aisle (JStr s) = Inl e"
  by (cases "py_get aisle ''aisle_name'' JNull") (simp_all add: get_json_create_row_def)

lemma get_prices_create_row_string: "\<exists>e. get_prices_create_row today data aisle (JStr s) = Inl e"
  by (simp add: get_prices_create_row_def)

lemma create_data_traversal:
  assumes "create_data today (JArr stores) = Inr rows"
  shows "map Inr rows = flat_map_rows (get_json_create_row today) stores"
proof -
  let ?mk = "get_json_create_row today"
  let ?store = "\<lambda>data.
       and_then (get_nested data [''search_result'', ''aisles'']) (\<lambda>aisles.
       and_then (py_iter aisles) (for_each (\<lambda>aisle.
         and_then (py_get aisle ''products'' (JArr [])) (\<lambda>products.
         and_then (py_iter products) (for_each (\<lambda>product.
           and_then (?mk data aisle product) (\<lambda>r. Inr [r])))))))"
  have loop: "for_each ?store stores = Inr rows"
    using assms by (simp add: create_data_def)
  have "map Inr rs = concat (map (\<lambda>a. map (?mk data a) (products_of a)) (aisles_of data))"
    if "?store data = Inr rs" for data rs
  proof -
    from that obtain v as
      where v: "get_nested data [''search_result'', ''aisles''] = Inr v"
        and it: "py_iter v = Inr as"
        and inner: "for_each (\<lambda>aisle.
            and_then (py_get aisle ''products'' (JArr [])) (\<lambda>products.
            and_then (py_iter products) (for_each (\<lambda>product.
              and_then (?mk data aisle product) (\<lambda>r. Inr [r]))))) as = Inr rs"
      unfolding and_then_Inr by blast
    have "as = (case v of JArr ys \<Rightarrow> ys | _ \<Rightarrow> []) \<and>
          map Inr rs = concat (map (\<lambda>a. map (?mk data a) (products_of a)) as)"
      by (rule aisles_loop [OF it inner]) (rule get_json_create_row_string)
    then show ?thesis using get_json_aisles [OF v] by simp
  qed
  then show ?thesis
    unfolding flat_map_rows_def by (intro for_each_rows [OF loop]) blast
qed

lemma create_dataframe_rows_traversal:
  assumes "create_dataframe_rows today (JArr stores) = Inr rows"
  shows "map Inr rows = flat_map_rows (get_prices_create_row today) stores"
proof -
  let ?mk = "get_prices_create_row today"
  let ?store = "\<lambda>data.
       and_then (and_then (py_get data ''search_result'' (JObj []))
                   (\<lambda>v. py_get v ''aisles'' (JArr []))) (\<lambda>aisles.
       and_then (py_iter aisles) (for_each (\<lambda>aisle.
         and_then (py_get aisle ''products'' (JArr [])) (\<lambda>products.
         and_then (py_iter products) (for_each (\<lambda>product.
           and_then (?mk data aisle product) (\<lambda>r. Inr [r])))))))"
  have loop: "for_each ?store stores = Inr rows"
    using assms by (simp add: create_dataframe_rows_def)
  have "map Inr rs = concat (map (\<lambda>a. map (?mk data a) (products_of a)) (aisles_of data))"
    if "?store data = Inr rs" for data rs
  proof -
    from that obtain v as
      where v: "and_then (py_get data ''search_result'' (JObj []))
                   (\<lambda>v. py_get v ''aisles'' (JArr [])) = Inr v"
        and it: "py_iter v = Inr as"
        and inner: "for_each (\<lambda>aisle.
            and_then (py_get aisle ''products'' (JArr [])) (\<lambda>products.
            and_then (py_iter products) (for_each (\<lambda>product.
              and_then (?mk data aisle product) (\<lambda>r. Inr [r]))))) as = Inr rs"
      unfolding and_then_Inr by blast
    have "as = (case v of JArr ys \<Rightarrow> ys | _ \<Rightarrow> []) \<and>
          map Inr rs = concat (map (\<lambda>a. map (?mk data a) (products_of a)) as)"
      by (rule aisles_loop [OF it inner]) (rule get_prices_create_row_string)
    then show ?thesis using get_prices_aisles [OF v] by simp
  qed
  then show ?thesis
    unfolding flat_map_rows_def by (intro for_each_rows [OF loop]) blast
qed

lemma create_dataframe_Inr:
  "create_dataframe pd_DataFrame today results = Inr df \<longleftrightarrow>
     (\<exists>rows. create_dataframe_rows today results = Inr rows \<and> df = pd_DataFrame rows)"
  by (auto simp: create_dataframe_def and_then_Inr)

lemma create_dataframe_Inl:
  "create_dataframe pd_DataFrame today results = Inl e \<longleftrightarrow>
     create_dataframe_rows today results = Inl e"
  by (cases "create_dataframe_rows today results") (simp_all add: create_dataframe_def)

lemma length_flat_map_rows: "length (flat_map_rows mk stores) = product_occurrences stores"
  by (simp add: flat_map_rows_def product_occurrences_def length_concat comp_def)

section \<open>The scenario, evaluated\<close>

lemma create_data_scenario: "create_data today (JArr [scenario_store]) = Inr [scenario_row today]"
  by (simp add: create_data_def get_json_create_row_def scenario_store_def scenario_aisle_def
      scenario_product_def scenario_row_def)

lemma create_dataframe_rows_scenario:
  "create_dataframe_rows today (JArr [scenario_store]) = Inr [scenario_frame_row today]"
  by (simp add: create_dataframe_rows_def get_prices_create_row_def scenario_store_def
      scenario_aisle_def scenario_product_def scenario_frame_row_def)

lemma create_dataframe_scenario:
  "create_dataframe pd_DataFrame today (JArr [scenario_store]) =
     Inr (pd_DataFrame [scenario_frame_row today])"
  by (simp add: create_dataframe_def create_dataframe_rows_scenario)

lemma aisles_of_scenario: "aisles_of scenario_store = [scenario_aisle]"
  by (simp add: aisles_of_def scenario_store_def)

lemma products_of_scenario: "products_of scenario_aisle = [scenario_product]"
  by (simp add: products_of_def scenario_aisle_def)

lemma product_occurrences_scenario: "product_occurrences [scenario_store] = 1"
  by (simp add: product_occurrences_def aisles_of_scenario products_of_scenario)

lemma store_well_formed_scenario: "store_well_formed scenario_store"
  by (simp add: store_well_formed_def aisle_well_formed_def row_chains_def scenario_store_def
      scenario_aisle_def scenario_product_def)

lemma flat_map_rows_scenario:
  "flat_map_rows mk [scenario_store] = [mk scenario_store scenario_aisle scenario_product]"
  by (simp add: flat_map_rows_def aisles_of_scenario products_of_scenario)

section \<open>The flattener: count, order and the scenario\<close>

text \<open>
  When a flattener returns its rows, they are as many as the product occurrences of the
  sequence. With \<open>create_data_traversal\<close> and \<open>create_dataframe_rows_traversal\<close> above,
  this is what both flatteners do on the inputs they do not raise on.
\<close>

lemma returned_rows_counted:
  "(create_data today (JArr stores) = Inr rows \<longrightarrow>
      length rows = product_occurrences stores) \<and>
   (create_dataframe_rows today' (JArr stores) = Inr rows' \<longrightarrow>
      length rows' = product_occurrences stores)"
proof (intro conjI impI)
  assume "create_data today (JArr stores) = Inr rows"
  then have "length (map (Inr :: row \<Rightarrow> row result) rows) =
      length (flat_map_rows (get_json_create_row today) stores)"
    by (simp only: create_data_traversal)
  then show "length rows = product_occurrences stores"
    by (simp add: length_flat_map_rows)
next
  assume "create_dataframe_rows today' (JArr stores) = Inr rows'"
  then have "length (map (Inr :: row \<Rightarrow> row result) rows') =
      length (flat_map_rows (get_prices_create_row today') stores)"
    by (simp only: create_dataframe_rows_traversal)
  then show "length rows' = product_occurrences stores"
    by (simp add: length_flat_map_rows)
qed

lemma aisles_of_brandless:
  "aisles_of store_with_brandless_product =
     [JObj [(''aisle_name'', JStr ''Dairy''),
            (''products'', JArr [scenario_product, product_without_brand])]]"
  by (simp add: aisles_of_def store_with_brandless_product_def)

lemma aisles_of_without_aisles: "aisles_of store_without_aisles = []"
  by (simp add: aisles_of_def store_without_aisles_def)

text \<open>
  Claim C1, at two sequences of store results. The store whose aisle holds the scenario's
  product and the product without a brand has two product occurrences, and
  \<^verbatim>\<open>create_dataframe\<close> raises \<^verbatim>\<open>AttributeError\<close> on it for every frame constructor:
  no record is produced. The scenario's store followed by the store without an aisle list
  has one product occurrence, and \<^verbatim>\<open>create_data\<close> raises \<^verbatim>\<open>TypeError\<close> on it.
\<close>

theorem record_count_fails:
  "product_occurrences [store_with_brandless_product] = 2 \<and>
   create_dataframe pd_DataFrame ''2026-11-04'' (JArr [store_with_brandless_product]) =
     Inl AttributeError \<and>
   product_occurrences [scenario_store, store_without_aisles] = 1 \<and>
   create_data ''04-11-2026'' (JArr [scenario_store, store_without_aisles]) = Inl TypeError"
proof (intro conjI)
  show "product_occurrences [store_with_brandless_product] = 2"
    by (simp add: product_occurrences_def aisles_of_brandless products_of_def)
  show "create_dataframe pd_DataFrame ''2026-11-04'' (JArr [store_with_brandless_product]) =
     Inl AttributeError"
    by (simp add: create_dataframe_Inl create_dataframe_rows_def get_prices_create_row_def
        store_with_brandless_product_def scenario_product_def product_without_brand_def)
  show "product_occurrences [scenario_store, store_without_aisles] = 1"
    by (simp add: product_occurrences_def aisles_of_scenario products_of_scenario
        aisles_of_without_aisles)
  show "create_data ''04-11-2026'' (JArr [scenario_store, store_without_aisles]) = Inl TypeError"
    by (simp add: create_data_def get_json_create_row_def scenario_store_def scenario_aisle_def
        scenario_product_def store_without_aisles_def)
qed

text \<open>
  Claim C10, at the scenario's store, the store without an aisle list and the scenario's
  store again. The nested traversal of the three stores applies the row constructor twice,
  and both calls return the scenario's row; \<^verbatim>\<open>create_data\<close> raises \<^verbatim>\<open>TypeError\<close> at the
  second store and emits no record, neither the one before it nor the one after it.
\<close>

theorem traversal_order_fails:
  "flat_map_rows (get_json_create_row ''04-11-2026'')
     [scenario_store, store_without_aisles, scenario_store] =
     [Inr (scenario_row ''04-11-2026''), Inr (scenario_row ''04-11-2026'')] \<and>
   create_data ''04-11-2026'' (JArr [scenario_store, store_without_aisles, scenario_store]) =
     Inl TypeError"
proof
  have "get_json_create_row ''04-11-2026'' scenario_store scenario_aisle scenario_product =
      Inr (scenario_row ''04-11-2026'')"
    by (simp add: get_json_create_row_def scenario_store_def scenario_aisle_def
        scenario_product_def scenario_row_def)
  then show "flat_map_rows (get_json_create_row ''04-11-2026'')
     [scenario_store, store_without_aisles, scenario_store] =
     [Inr (scenario_row ''04-11-2026''), Inr (scenario_row ''04-11-2026'')]"
    by (simp add: flat_map_rows_def aisles_of_scenario products_of_scenario
        aisles_of_without_aisles)
  show "create_data ''04-11-2026'' (JArr [scenario_store, store_without_aisles, scenario_store]) =
     Inl TypeError"
    by (simp add: create_data_def get_json_create_row_def scenario_store_def scenario_aisle_def
        scenario_product_def store_without_aisles_def)
qed

text \<open>
  Claim C5. On the response of the end-to-end scenario, the list under \<^verbatim>\<open>results\<close> holds
  the one store, and flattening it with \<^verbatim>\<open>create_data\<close> returns exactly one row, whose
  product name is "Milk 1L", price 5.5, store name "S1", store city "X" and search term
  "milk".
\<close>

theorem scenario_one_record:
  "py_get scenario_response ''results'' (JArr []) = Inr (JArr [scenario_store]) \<and>
   (\<exists>r. create_data today (JArr [scenario_store]) = Inr [r] \<and>
        map_of r ''product_name'' = Some (JStr ''Milk 1L'') \<and>
        map_of r ''price'' = Some (JNum 5.5) \<and>
        map_of r ''store_name'' = Some (JStr ''S1'') \<and>
        map_of r ''store_city'' = Some (JStr ''X'') \<and>
        map_of r ''search_term'' = Some (JStr ''milk''))"
  by (simp add: create_data_scenario scenario_row_def scenario_response_def)

section \<open>The safe nested get\<close>

lemma get_nested_dict_chain:
  "get_nested v keys =
     (if dict_chain v keys then Inr (safe_navigate v keys) else Inl AttributeError)"
proof (induction keys arbitrary: v)
  case Nil
  show ?case by simp
next
  case (Cons k ks)
  show ?case
  proof (cases v)
    case (JObj d)
    then show ?thesis
      using Cons.IH by (cases ks) (auto split: option.splits json.splits)
  qed simp_all
qed

lemma py_get_null_default: "py_get (JObj kvs) k JNull = Inr (safe_navigate (JObj kvs) [k])"
  by (simp split: option.splits)

lemma safe_navigate_missing:
  assumes "map_of kvs k = None \<or> map_of kvs k = Some JNull"
  shows "dict_chain (JObj kvs) (k # keys)" and "safe_navigate (JObj kvs) (k # keys) = JNull"
  using assms by (cases keys; auto)+

text \<open>
  Claim C4, as the code has it. For a root dictionary and a sequence of keys,
  \<^verbatim>\<open>get_nested\<close> returns what the safe navigation of the specification returns (null as
  soon as a step is absent or null, the value at the end of the chain otherwise) exactly
  when every value it reaches before the last key is a dictionary or null; when one of
  them is a string, a number, a boolean or a list, it raises \<^verbatim>\<open>AttributeError\<close>.
\<close>

theorem get_nested_chain:
  "get_nested (JObj kvs) keys =
     (if dict_chain (JObj kvs) keys then Inr (safe_navigate (JObj kvs) keys)
      else Inl AttributeError)"
  by (rule get_nested_dict_chain)

text \<open>
  A brand given as a plain string: the chain \<^verbatim>\<open>brand\<close>, \<^verbatim>\<open>name\<close> on this root
  dictionary raises instead of returning the placeholder.
\<close>

theorem get_nested_chain_counterexample:
  "get_nested (JObj [(''brand'', JStr ''B'')]) [''brand'', ''name''] = Inl AttributeError"
  by simp

text \<open>The three cases on the chain \<^verbatim>\<open>brand\<close>, \<^verbatim>\<open>name\<close>: a dictionary, null, a string.\<close>

theorem get_nested_chain_witness:
  "dict_chain (JObj [(''brand'', JObj [(''name'', JStr ''B'')])]) [''brand'', ''name''] \<and>
   get_nested (JObj [(''brand'', JObj [(''name'', JStr ''B'')])]) [''brand'', ''name''] =
     Inr (JStr ''B'') \<and>
   dict_chain (JObj [(''brand'', JNull)]) [''brand'', ''name''] \<and>
   get_nested (JObj [(''brand'', JNull)]) [''brand'', ''name''] = Inr JNull \<and>
   \<not> dict_chain (JObj [(''brand'', JStr ''B'')]) [''brand'', ''name''] \<and>
   get_nested (JObj [(''brand'', JStr ''B'')]) [''brand'', ''name''] = Inl AttributeError"
  using get_nested_chain [of "[(''brand'', JObj [(''name'', JStr ''B'')])]" "[''brand'', ''name'']"]
    get_nested_chain [of "[(''brand'', JNull)]" "[''brand'', ''name'']"]
    get_nested_chain [of "[(''brand'', JStr ''B'')]" "[''brand'', ''name'']"]
  by simp

section \<open>Missing fields\<close>

text \<open>
  The row constructor of get\_json.py returns on dictionaries whose chains pass through
  dictionaries and null only, and each field is what the safe navigation gives.
\<close>

lemma get_json_create_row_returns:
  assumes "row_chains data (JObj p)"
  shows "get_json_create_row today data (JObj a) (JObj p) =
     Inr [(''date'', JStr today),
          (''aisle_name'', safe_navigate (JObj a) [''aisle_name'']),
          (''product_name'', safe_navigate (JObj p) [''name'']),
          (''brand'', safe_navigate (JObj p) [''brand'', ''name'']),
          (''price'', safe_navigate (JObj p) [''pricing'', ''price'', ''amount'']),
          (''package'', safe_navigate (JObj p) [''package'']),
          (''store_name'', safe_navigate data [''store'', ''name'']),
          (''store_city'', safe_navigate data [''store'', ''closest_branch'', ''city'']),
          (''search_term'', safe_navigate data [''search_result'', ''search_term''])]"
  using assms
  unfolding get_json_create_row_def row_chains_def
  by (simp only: get_nested_dict_chain py_get_null_default and_then_simps if_True)

text \<open>
  With \<^verbatim>\<open>brand\<close>, \<^verbatim>\<open>pricing\<close> and \<^verbatim>\<open>package\<close> each absent or null, it puts null in the
  three fields.
\<close>

lemma get_json_create_row_missing:
  assumes brand: "map_of p ''brand'' = None \<or> map_of p ''brand'' = Some JNull"
    and pricing: "map_of p ''pricing'' = None \<or> map_of p ''pricing'' = Some JNull"
    and package: "map_of p ''package'' = None \<or> map_of p ''package'' = Some JNull"
    and store: "dict_chain data [''store'', ''name'']"
      "dict_chain data [''store'', ''closest_branch'', ''city'']"
      "dict_chain data [''search_result'', ''search_term'']"
  shows "get_json_create_row today data (JObj a) (JObj p) =
     Inr [(''date'', JStr today),
          (''aisle_name'', safe_navigate (JObj a) [''aisle_name'']),
          (''product_name'', safe_navigate (JObj p) [''name'']),
          (''brand'', JNull),
          (''price'', JNull),
          (''package'', JNull),
          (''store_name'', safe_navigate data [''store'', ''name'']),
          (''store_city'', safe_navigate data [''store'', ''closest_branch'', ''city'']),
          (''search_term'', safe_navigate data [''search_result'', ''search_term''])]"
proof -
  have "row_chains data (JObj p)"
    unfolding row_chains_def
    using safe_navigate_missing(1) [OF brand] safe_navigate_missing(1) [OF pricing] store
    by blast
  then show ?thesis
    using safe_navigate_missing(2) [OF brand, of "[''name'']"]
      safe_navigate_missing(2) [OF pricing, of "[''price'', ''amount'']"]
      safe_navigate_missing(2) [OF package, of "[]"]
    by (simp only: get_json_create_row_returns)
qed

text \<open>
  The row constructor of get\_json.py on a product without a brand: the brand of the row is
  null.
\<close>

lemma get_json_create_row_without_brand:
  "get_json_create_row today scenario_store scenario_aisle product_without_brand =
     Inr [(''date'', JStr today), (''aisle_name'', JStr ''Dairy''),
          (''product_name'', JStr ''Milk 1L''), (''brand'', JNull), (''price'', JNum 5.5),
          (''package'', JStr ''1L''), (''store_name'', JStr ''S1''), (''store_city'', JStr ''X''),
          (''search_term'', JStr ''milk'')]"
  by (simp add: get_json_create_row_def scenario_store_def scenario_aisle_def
      product_without_brand_def)

text \<open>
  Claim C2, at a product without a brand. The row constructor of get\_prices.py takes the
  empty list as the default of \<^verbatim>\<open>brand\<close> and calls \<^verbatim>\<open>.get\<close> on it: it raises
  \<^verbatim>\<open>AttributeError\<close> instead of putting the placeholder in the brand fields.
\<close>

theorem get_prices_create_row_without_brand:
  "get_prices_create_row ''2026-11-04'' scenario_store scenario_aisle product_without_brand =
     Inl AttributeError"
  by (simp add: get_prices_create_row_def scenario_store_def product_without_brand_def)

text \<open>
  The flattener of get\_prices.py on a store without an aisle list followed by the
  scenario's store: no row for the first, the row of the second.
\<close>

lemma create_dataframe_without_aisles:
  "create_dataframe pd_DataFrame today (JArr [store_without_aisles, scenario_store]) =
     Inr (pd_DataFrame [scenario_frame_row today])"
  by (simp add: create_dataframe_def create_dataframe_rows_def get_prices_create_row_def
      scenario_store_def scenario_aisle_def scenario_product_def scenario_frame_row_def
      store_without_aisles_def)

text \<open>
  Claim C3, at a store without an aisle list followed by the scenario's store. In
  \<^verbatim>\<open>create_data\<close> the absent list is \<^verbatim>\<open>None\<close>, which the \<^verbatim>\<open>for\<close> clause cannot
  iterate: it raises \<^verbatim>\<open>TypeError\<close>, and the second store is not processed.
\<close>

theorem create_data_without_aisles:
  "create_data ''04-11-2026'' (JArr [store_without_aisles, scenario_store]) = Inl TypeError"
  by (simp add: create_data_def store_without_aisles_def)

section \<open>The flattener of get\_json.py returns on well-formed stores\<close>

lemma is_dict_iff: "is_dict v \<longleftrightarrow> (\<exists>kvs. v = JObj kvs)"
  by (cases v) simp_all

lemma py_get_Inr: "py_get v k d = Inr u \<Longrightarrow> is_dict v"
  by (cases v) simp_all

lemma aisle_returns:
  assumes "aisle_well_formed data aisle"
  shows "\<exists>rows. and_then (py_get aisle ''products'' (JArr [])) (\<lambda>products.
            and_then (py_iter products) (for_each (\<lambda>product.
              and_then (get_json_create_row today data aisle product) (\<lambda>r. Inr [r])))) = Inr rows"
proof -
  from assms obtain ps
    where got: "py_get aisle ''products'' (JArr []) = Inr (JArr ps)"
      and ps: "list_all (\<lambda>p. is_dict p \<and> row_chains data p) ps"
    by (auto simp: aisle_well_formed_def split: sum.splits json.splits)
  from got obtain a where a: "aisle = JObj a"
    using py_get_Inr is_dict_iff by blast
  have "\<exists>ys. and_then (get_json_create_row today data aisle product) (\<lambda>r. Inr [r]) = Inr ys"
    if "product \<in> set ps" for product
  proof -
    from that ps obtain p where "product = JObj p" "row_chains data (JObj p)"
      by (auto simp: list_all_iff is_dict_iff)
    then show ?thesis
      using a by (simp add: get_json_create_row_returns)
  qed
  then have "\<exists>rows. for_each (\<lambda>product.
      and_then (get_json_create_row today data aisle product) (\<lambda>r. Inr [r])) ps = Inr rows"
    by (rule for_each_returns)
  then show ?thesis using got by simp
qed

lemma create_data_returns:
  assumes "list_all store_well_formed stores"
  shows "\<exists>rows. create_data today (JArr stores) = Inr rows"
proof -
  have "\<exists>rows. and_then (get_nested data [''search_result'', ''aisles'']) (\<lambda>aisles.
       and_then (py_iter aisles) (for_each (\<lambda>aisle.
         and_then (py_get aisle ''products'' (JArr [])) (\<lambda>products.
         and_then (py_iter products) (for_each (\<lambda>product.
           and_then (get_json_create_row today data aisle product)
             (\<lambda>r. Inr [r]))))))) = Inr rows"
    if "data \<in> set stores" for data
  proof -
    from that assms have "store_well_formed data" by (simp add: list_all_iff)
    then obtain as
      where got: "get_nested data [''search_result'', ''aisles''] = Inr (JArr as)"
        and as: "list_all (aisle_well_formed data) as"
      by (auto simp: store_well_formed_def split: sum.splits json.splits)
    have "\<exists>rows. for_each (\<lambda>aisle.
         and_then (py_get aisle ''products'' (JArr [])) (\<lambda>products.
         and_then (py_iter products) (for_each (\<lambda>product.
           and_then (get_json_create_row today data aisle product)
             (\<lambda>r. Inr [r]))))) as = Inr rows"
      by (rule for_each_returns) (use as in \<open>auto simp: list_all_iff intro: aisle_returns\<close>)
    then show ?thesis using got by (simp del: get_nested.simps)
  qed
  then have "\<exists>rows. for_each (\<lambda>data.
       and_then (get_nested data [''search_result'', ''aisles'']) (\<lambda>aisles.
       and_then (py_iter aisles) (for_each (\<lambda>aisle.
         and_then (py_get aisle ''products'' (JArr [])) (\<lambda>products.
         and_then (py_iter products) (for_each (\<lambda>product.
           and_then (get_json_create_row today data aisle product)
             (\<lambda>r. Inr [r])))))))) stores = Inr rows"
    by (rule for_each_returns)
  then show ?thesis by (simp add: create_data_def)
qed

section \<open>Results that are absent or not a list\<close>

lemma create_data_empty: "create_data today (JArr []) = Inr []"
  by (simp add: create_data_def)

lemma create_dataframe_empty:
  "create_dataframe pd_DataFrame today (JArr []) = Inr (pd_DataFrame [])"
  by (simp add: create_dataframe_def create_dataframe_rows_def)

text \<open>
  The pipeline of get\_prices.py tests the type of \<^verbatim>\<open>results\<close>: when it is not a list
  the pipeline logs a warning and returns, without flattening or exporting.
\<close>

lemma fetch_and_export_results_not_list:
  assumes "kvs \<noteq> []" and "map_of kvs ''results'' = Some r" and "\<not> is_list r"
  shows "fetch_and_export_product_data os pd_DataFrame (Body_json (JObj kvs)) today timestamp
           dir_path base_name format w =
     (Inr (), log_msg ''WARNING''
                (CHR 0x27 # ''results'' @ CHR 0x27 #
                 '' is not present or not a list in the returned data.'') w)"
  using assms by (simp add: fetch_and_export_product_data_def)

text \<open>
  Claim C7, at a response whose \<^verbatim>\<open>results\<close> is null. The pipeline of get\_json.py passes
  it to \<^verbatim>\<open>create_data\<close> untested, and the flattening raises \<^verbatim>\<open>TypeError\<close>.
\<close>

theorem get_and_create_results_null:
  "get_and_create mem_sys (Body_json (JObj [(''results'', JNull)])) ''04-11-2026''
     ''20261104_120000'' ''milk'' ''88010560'' ''.'' empty_world =
   (Inl TypeError, py_print ''Fetching product data...'' empty_world)"
  by (simp add: get_and_create_def create_data_def)

section \<open>Export\<close>

text \<open>
  Claim C6. For a format that is not one of csv, parquet and json, \<^verbatim>\<open>export_data\<close>
  raises the \<^verbatim>\<open>ValueError\<close> of the format check and leaves the world as it was, whatever
  the file system calls would do: no directory and no file is created, nothing is logged.
  For a supported format it never raises that error.
\<close>

theorem export_data_format_check:
  "(format \<notin> supported_formats \<longrightarrow>
      export_data os timestamp df dir_path base_name format w =
        (Inl (ValueError (''Unsupported file format: '' @ format)), w)) \<and>
   (format \<in> supported_formats \<longrightarrow>
      (\<forall>msg. fst (export_data os timestamp df dir_path base_name format w) \<noteq>
         Inl (ValueError msg)))"
  by (auto simp: export_data_def Let_def split: prod.splits option.splits)

text \<open>The format check on "xml" and on "csv", over the file system in memory.\<close>

theorem export_data_format_check_witness:
  "''xml'' \<notin> supported_formats \<and>
   export_data mem_sys ''20261104-120000'' 0 ''./data/'' ''product_data'' ''xml'' empty_world =
     (Inl (ValueError ''Unsupported file format: xml''), empty_world) \<and>
   ''csv'' \<in> supported_formats \<and>
   fst (export_data mem_sys ''20261104-120000'' 0 ''./data/'' ''product_data'' ''csv''
          empty_world) \<noteq>
     Inl (ValueError ''Unsupported file format: csv'')"
  using export_data_format_check [of "''xml''" mem_sys "''20261104-120000''" 0 "''./data/''"
      "''product_data''" empty_world]
    export_data_format_check [of "''csv''" mem_sys "''20261104-120000''" 0 "''./data/''"
      "''product_data''" empty_world]
  by (simp add: supported_formats_def)

section \<open>Failed fetches\<close>

text \<open>
  Claim C8, as the code has it. When the fetch ends in a transport error or a non-success
  status: \<^verbatim>\<open>get_product_data\<close> of get\_json.py logs the error and raises \<^verbatim>\<open>APIError\<close>,
  and \<^verbatim>\<open>get_and_create\<close> lets it through without flattening or writing;
  \<^verbatim>\<open>get_product_data\<close> of get\_prices.py logs the error (one line at level ERROR, with
  the text of the exception) and returns \<^verbatim>\<open>None\<close>, and
  \<^verbatim>\<open>fetch_and_export_product_data\<close> then logs the warning "No data returned." and returns
  without flattening or exporting. In both pipelines the file system is left as it was.
\<close>

theorem fetch_failure_stops_pipeline:
  assumes "answer = Request_failed err \<or> answer = Status_error err"
  shows "fst (get_json_get_product_data answer w) =
           Inl (APIError ''An error occurred while fetching product data.'') \<and>
         logged (snd (get_json_get_product_data answer w)) =
           logged w @ [(''ERROR'', ''Error occurred while fetching product data: '' @ err)] \<and>
         get_and_create os answer today timestamp term code base_dir w =
           (Inl (APIError ''An error occurred while fetching product data.''),
            snd (get_json_get_product_data answer (py_print ''Fetching product data...'' w))) \<and>
         files (snd (get_and_create os answer today timestamp term code base_dir w)) = files w \<and>
         fst (get_prices_get_product_data answer w) = Inr JNull \<and>
         logged (snd (get_prices_get_product_data answer w)) =
           logged w @
             [(''ERROR'',
               (if answer = Status_error err then ''HTTP error occurred: ''
                else ''Other Requests error occurred: '') @ err)] \<and>
         files (snd (get_prices_get_product_data answer w)) = files w \<and>
         fetch_and_export_product_data os' pd_DataFrame answer today' timestamp' dir_path
             base_name format w =
           (Inr (), log_msg ''WARNING'' ''No data returned.''
                      (snd (get_prices_get_product_data answer w))) \<and>
         logged (snd (fetch_and_export_product_data os' pd_DataFrame answer today' timestamp'
                       dir_path base_name format w)) =
           logged w @
             [(''ERROR'',
               (if answer = Status_error err then ''HTTP error occurred: ''
                else ''Other Requests error occurred: '') @ err),
              (''WARNING'', ''No data returned.'')] \<and>
         files (snd (fetch_and_export_product_data os' pd_DataFrame answer today' timestamp'
                       dir_path base_name format w)) = files w"
  using assms
  by (auto simp: get_and_create_def fetch_and_export_product_data_def log_msg_def py_print_def)

text \<open>
  A refused connection: \<^verbatim>\<open>get_product_data\<close> of get\_prices.py returns \<^verbatim>\<open>None\<close>, a
  normal result, and raises nothing.
\<close>

theorem fetch_failure_stops_pipeline_counterexample:
  "get_prices_get_product_data (Request_failed ''Connection refused'') empty_world =
     (Inr JNull,
      log_msg ''ERROR'' ''Other Requests error occurred: Connection refused'' empty_world)"
  by simp

text \<open>A status 404 answered to both pipelines, over the file system in memory.\<close>

theorem fetch_failure_stops_pipeline_witness:
  "fst (get_json_get_product_data (Status_error ''404 Client Error'') empty_world) =
     Inl (APIError ''An error occurred while fetching product data.'') \<and>
   logged (snd (get_json_get_product_data (Status_error ''404 Client Error'') empty_world)) =
     [(''ERROR'', ''Error occurred while fetching product data: 404 Client Error'')] \<and>
   fst (get_and_create mem_sys (Status_error ''404 Client Error'') ''04-11-2026''
          ''20261104_120000'' ''milk'' ''88010560'' ''.'' empty_world) =
     Inl (APIError ''An error occurred while fetching product data.'') \<and>
   files (snd (get_and_create mem_sys (Status_error ''404 Client Error'') ''04-11-2026''
          ''20261104_120000'' ''milk'' ''88010560'' ''.'' empty_world)) = files empty_world \<and>
   fst (get_prices_get_product_data (Status_error ''404 Client Error'') empty_world) = Inr JNull \<and>
   logged (snd (get_prices_get_product_data (Status_error ''404 Client Error'') empty_world)) =
     [(''ERROR'', ''HTTP error occurred: 404 Client Error'')] \<and>
   fst (fetch_and_export_product_data mem_sys length (Status_error ''404 Client Error'')
          ''2026-11-04'' ''20261104-120000'' ''./data/'' ''product_data'' ''csv'' empty_world) =
     Inr () \<and>
   logged (snd (fetch_and_export_product_data mem_sys length (Status_error ''404 Client Error'')
          ''2026-11-04'' ''20261104-120000'' ''./data/'' ''product_data'' ''csv'' empty_world)) =
     [(''ERROR'', ''HTTP error occurred: 404 Client Error''),
      (''WARNING'', ''No data returned.'')] \<and>
   files (snd (fetch_and_export_product_data mem_sys length (Status_error ''404 Client Error'')
          ''2026-11-04'' ''20261104-120000'' ''./data/'' ''product_data'' ''csv'' empty_world)) =
     files empty_world"
  using fetch_failure_stops_pipeline [of "Status_error ''404 Client Error''" "''404 Client Error''"
      empty_world mem_sys "''04-11-2026''" "''20261104_120000''" "''milk''" "''88010560''" "''.''"
      mem_sys length "''2026-11-04''" "''20261104-120000''" "''./data/''" "''product_data''"
      "''csv''"]
  by (simp add: log_msg_def py_print_def empty_world_def)

text \<open>
  Claim C9, as the code has it. When the request succeeds and the body is not JSON:
  \<^verbatim>\<open>get_product_data\<close> of get\_json.py raises the \<^verbatim>\<open>APIError\<close> with the message of an
  invalid response, which differs from the one it raises on a transport error or a
  non-success status, and logs nothing; \<^verbatim>\<open>get_product_data\<close> of get\_prices.py, when the
  parser's exception is a \<^verbatim>\<open>RequestException\<close>, logs it at level ERROR as an "Other
  Requests error" and returns \<^verbatim>\<open>None\<close>, which is exactly what it does for a transport
  error with the same text.
\<close>

theorem invalid_body_error:
  "get_json_get_product_data (Body_invalid b err) w =
     (Inl (APIError ''Received an invalid JSON response.''), w) \<and>
   fst (get_json_get_product_data (Body_invalid b err) w) \<noteq>
     fst (get_json_get_product_data (Request_failed err') w') \<and>
   fst (get_json_get_product_data (Body_invalid b err) w) \<noteq>
     fst (get_json_get_product_data (Status_error err') w') \<and>
   fst (get_prices_get_product_data (Body_invalid True err) w) = Inr JNull \<and>
   logged (snd (get_prices_get_product_data (Body_invalid True err) w)) =
     logged w @ [(''ERROR'', ''Other Requests error occurred: '' @ err)] \<and>
   files (snd (get_prices_get_product_data (Body_invalid True err) w)) = files w \<and>
   get_prices_get_product_data (Body_invalid True err) w =
     get_prices_get_product_data (Request_failed err) w"
  by (simp add: log_msg_def)

text \<open>
  A body that is not JSON, with a parser whose exception is a \<^verbatim>\<open>RequestException\<close>:
  \<^verbatim>\<open>get_product_data\<close> of get\_prices.py returns \<^verbatim>\<open>None\<close> and logs exactly what it logs
  for a transport error with the same text.
\<close>

theorem invalid_body_error_counterexample:
  "get_prices_get_product_data (Body_invalid True ''Expecting value'') empty_world =
     get_prices_get_product_data (Request_failed ''Expecting value'') empty_world \<and>
   fst (get_prices_get_product_data (Body_invalid True ''Expecting value'') empty_world) =
     Inr JNull"
  by simp

text \<open>The two modules on a body that is not JSON, over the file system in memory.\<close>

theorem invalid_body_error_witness:
  "fst (get_json_get_product_data (Body_invalid True ''Expecting value'') empty_world) =
     Inl (APIError ''Received an invalid JSON response.'') \<and>
   fst (get_json_get_product_data (Request_failed ''Expecting value'') empty_world) =
     Inl (APIError ''An error occurred while fetching product data.'') \<and>
   fst (get_prices_get_product_data (Body_invalid True ''Expecting value'') empty_world) =
     Inr JNull \<and>
   logged (snd (get_prices_get_product_data (Body_invalid True ''Expecting value'')
          empty_world)) =
     [(''ERROR'', ''Other Requests error occurred: Expecting value'')]"
  using invalid_body_error [of True "''Expecting value''" empty_world "''Expecting value''"
      empty_world]
  by (simp add: empty_world_def)

end
